theory Spec2Isabelle
  imports Complex_Main
begin

section \<open>The vector-to-scalar volume module\<close>

subsection \<open>Data of the module and of the host scene\<close>

text \<open>
  \<^verbatim>\<open>class ConversionMethods(enum.Enum)\<close> has three members, declared in this order.
\<close>

datatype ConversionMethods = LUMINANCE | AVERAGE | SINGLE_COMPONENT

text \<open>
  \<^verbatim>\<open>isValidInputOutputData\<close> is a static method and tests
  \<^verbatim>\<open>isinstance(conversionMethod, ConversionMethods)\<close>: the value it receives is either a
  member of the enumeration or some other object, of which only its \<^verbatim>\<open>str\<close> is used.
\<close>

datatype method_value = Member ConversionMethods | NotMember string

text \<open>
  The scalar types of the host image library. The module only distinguishes
  \<^verbatim>\<open>VTK_FLOAT\<close> and \<^verbatim>\<open>VTK_DOUBLE\<close> from the others, which are integer types.
\<close>

datatype scalar_type =
    VTK_CHAR | VTK_SIGNED_CHAR | VTK_UNSIGNED_CHAR
  | VTK_SHORT | VTK_UNSIGNED_SHORT
  | VTK_INT | VTK_UNSIGNED_INT
  | VTK_LONG | VTK_UNSIGNED_LONG
  | VTK_FLOAT | VTK_DOUBLE

text \<open>
  An image of the host library: its dimensions, its scalar type, the number of scalar
  components of a voxel, and the voxels, each the list of its component values. Values
  are rationals: the arithmetic of the filters is modelled exactly.
\<close>

record image_data =
  dimensions :: "nat \<times> nat \<times> nat"
  scalarType :: scalar_type
  numberOfComponents :: nat
  voxels :: "rat list list"

type_synonym matrix4x4 = "rat list list"

text \<open>
  A volume node of the scene: its image data (\<^verbatim>\<open>GetImageData()\<close> is \<^verbatim>\<open>None\<close> for a
  node without an image) and its IJK-to-RAS matrix. The scene maps node IDs to nodes, so
  \<^verbatim>\<open>GetID()\<close> of a node is the key under which the scene holds it.
\<close>

record volume_node =
  imageData :: "image_data option"
  ijkToRAS :: matrix4x4

type_synonym node_id = string
type_synonym scene = "node_id \<rightharpoonup> volume_node"

text \<open>
  \<^verbatim>\<open>VectorToScalarVolumeParameterNode\<close>: the four annotated fields. The two volumes are
  node references: the ID of a \<^verbatim>\<open>vtkMRMLVectorVolumeNode\<close> and of a
  \<^verbatim>\<open>vtkMRMLScalarVolumeNode\<close>, or \<^verbatim>\<open>None\<close> when nothing is selected.
\<close>

record VectorToScalarVolumeParameterNode =
  InputVolume :: "node_id option"
  OutputVolume :: "node_id option"
  ConversionMethod :: ConversionMethods
  ComponentToExtract :: int

text \<open>
  Reading \<^verbatim>\<open>parameterNode.InputVolume\<close> gives the node object, or \<^verbatim>\<open>None\<close> when no
  node is selected or the selected node is not in the scene. A node object is modelled by
  its ID together with its current value.
\<close>

definition node_of :: "scene \<Rightarrow> node_id option \<Rightarrow> (node_id \<times> volume_node) option" where
  "node_of s r =
     (case r of
        None \<Rightarrow> None
      | Some i \<Rightarrow> (case s i of None \<Rightarrow> None | Some n \<Rightarrow> Some (i, n)))"

subsection \<open>Errors and messages\<close>

datatype error =
    ValueError string
  | NameError string
  | AttributeError string
  | ZeroDivisionError
  | FileNotFoundError string

text \<open>
  The two shapes of the pair that \<^verbatim>\<open>isValidInputOutputData\<close> returns:
  \<^verbatim>\<open>(True, None)\<close> and \<^verbatim>\<open>(False, msg)\<close>.
\<close>

datatype validity = Valid | Invalid string

text \<open>Python's \<^verbatim>\<open>str\<close> of an integer, used by the formatted messages.\<close>

definition digit_char :: "nat \<Rightarrow> char" where
  "digit_char d = char_of (of_char (CHR ''0'') + d)"

fun str_nat :: "nat \<Rightarrow> string" where
  "str_nat n = (if n < 10 then [digit_char n] else str_nat (n div 10) @ [digit_char (n mod 10)])"

definition str_int :: "int \<Rightarrow> string" where
  "str_int i = (if i < 0 then CHR ''-'' # str_nat (nat (- i)) else str_nat (nat i))"

text \<open>
  The messages, in the source language (the translation function \<^verbatim>\<open>_\<close> is taken as
  the identity).
\<close>

definition msg_no_input :: string where
  "msg_no_input = ''no input volume node defined''"

definition msg_no_output :: string where
  "msg_no_output = ''no output volume node defined''"

definition msg_same_volume :: string where
  "msg_same_volume =
     ''input and output volume is the same. Create a new volume for output to avoid this error.''"

definition msg_unrecognized :: "string \<Rightarrow> string" where
  "msg_unrecognized m = ''conversionMethod '' @ m @ '' unrecognized.''"

definition msg_bad_component :: "int \<Rightarrow> nat \<Rightarrow> string" where
  "msg_bad_component c n =
     ''component to extract ('' @ str_int c @ '') is invalid. Image has only ''
       @ str_nat n @ '' components.''"

definition msg_luminance :: "nat \<Rightarrow> string" where
  "msg_luminance n =
     ''input has only '' @ str_nat n
       @ '' components but requires at least 3 components for luminance conversion.''"

subsection \<open>Validation\<close>

text \<open>
  \<^verbatim>\<open>isValidInputOutputData\<close>, check by check in the order of the source. Reading the
  number of components of an input node without image data raises
  \<^verbatim>\<open>AttributeError\<close> (the call is made on \<^verbatim>\<open>None\<close>).
\<close>

definition isValidInputOutputData ::
  "(node_id \<times> volume_node) option \<Rightarrow> (node_id \<times> volume_node) option \<Rightarrow> method_value \<Rightarrow> int
     \<Rightarrow> error + validity" where
  "isValidInputOutputData inputVolumeNode outputVolumeNode conversionMethod componentToExtract =
     (case inputVolumeNode of
        None \<Rightarrow> Inr (Invalid msg_no_input)
      | Some (inputID, inputNode) \<Rightarrow>
     (case outputVolumeNode of
        None \<Rightarrow> Inr (Invalid msg_no_output)
      | Some (outputID, outputNode) \<Rightarrow>
     if inputID = outputID then Inr (Invalid msg_same_volume)
     else
     (case conversionMethod of
        NotMember m \<Rightarrow> Inr (Invalid (msg_unrecognized m))
      | Member method \<Rightarrow>
     (case imageData inputNode of
        None \<Rightarrow> Inl (AttributeError ''GetNumberOfScalarComponents'')
      | Some inputImage \<Rightarrow>
     let n = numberOfComponents inputImage in
     if method = SINGLE_COMPONENT \<and> \<not> (0 \<le> componentToExtract \<and> componentToExtract < int n)
     then Inr (Invalid (msg_bad_component componentToExtract n))
     else if method = LUMINANCE \<and> n < 3
     then Inr (Invalid (msg_luminance n))
     else Inr Valid))))"

subsection \<open>The image filters of the host library\<close>

text \<open>
  Modelled from the spec: the native image-filter API that the module consumes (component
  extraction, luminance computation, weighted sum, type casting, adding a constant) is
  not part of the sources. A pipeline is the graph of filter objects that the module
  builds; \<open>Update\<close> below gives each filter the documented behaviour of the host
  library, the luminance being \<^verbatim>\<open>0.30*R + 0.59*G + 0.11*B\<close> as the module's help text
  states it.
\<close>

datatype pipeline =
    ImageDataConnection "image_data option"
  | ImageExtractComponents pipeline "int list"
  | ImageLuminance pipeline
  | ImageCast pipeline scalar_type
  | ImageMathematicsAddConstant pipeline rat
  | ImageWeightedSum "pipeline list" "rat list" bool

text \<open>The number of filter objects of a pipeline (an image data connection is none).\<close>

fun filter_objects :: "pipeline \<Rightarrow> nat" where
  "filter_objects (ImageDataConnection img) = 0"
| "filter_objects (ImageExtractComponents p cs) = Suc (filter_objects p)"
| "filter_objects (ImageLuminance p) = Suc (filter_objects p)"
| "filter_objects (ImageCast p t) = Suc (filter_objects p)"
| "filter_objects (ImageMathematicsAddConstant p c) = Suc (filter_objects p)"
| "filter_objects (ImageWeightedSum ps ws nrm) = Suc (sum_list (map filter_objects ps))"

definition is_floating :: "scalar_type \<Rightarrow> bool" where
  "is_floating t = (t = VTK_FLOAT \<or> t = VTK_DOUBLE)"

text \<open>
  Modelled from the spec: the least and greatest value of an integer scalar type
  (\<^verbatim>\<open>char\<close> taken as signed and \<^verbatim>\<open>long\<close> as 64 bits wide).
\<close>

fun type_min :: "scalar_type \<Rightarrow> int" where
  "type_min VTK_CHAR = - 128"
| "type_min VTK_SIGNED_CHAR = - 128"
| "type_min VTK_SHORT = - 32768"
| "type_min VTK_INT = - 2147483648"
| "type_min VTK_LONG = - 9223372036854775808"
| "type_min t = 0"

fun type_max :: "scalar_type \<Rightarrow> int" where
  "type_max VTK_CHAR = 127"
| "type_max VTK_SIGNED_CHAR = 127"
| "type_max VTK_UNSIGNED_CHAR = 255"
| "type_max VTK_SHORT = 32767"
| "type_max VTK_UNSIGNED_SHORT = 65535"
| "type_max VTK_INT = 2147483647"
| "type_max VTK_UNSIGNED_INT = 4294967295"
| "type_max VTK_LONG = 9223372036854775807"
| "type_max VTK_UNSIGNED_LONG = 18446744073709551615"
| "type_max t = 0"

text \<open>
  Modelled from the spec: the cast of a value to a scalar type. A floating type keeps the
  value; an integer type truncates it toward zero and, out of the range of the type,
  wraps around.
\<close>

definition truncate_toward_zero :: "rat \<Rightarrow> int" where
  "truncate_toward_zero x = (if 0 \<le> x then \<lfloor>x\<rfloor> else \<lceil>x\<rceil>)"

definition cast_value :: "scalar_type \<Rightarrow> rat \<Rightarrow> rat" where
  "cast_value t x =
     (if is_floating t then x
      else of_int ((truncate_toward_zero x - type_min t) mod (type_max t - type_min t + 1)
                     + type_min t))"

text \<open>
  Modelled from the spec: the weighted sum of the voxels of several images, each voxel
  list paired with its weight.
\<close>

definition weighted_voxels :: "nat \<Rightarrow> nat \<Rightarrow> (rat \<times> rat list list) list \<Rightarrow> rat list list" where
  "weighted_voxels nvox ncomp wis =
     foldr (\<lambda>(w, vs) acc. map2 (map2 (\<lambda>x a. w * x + a)) vs acc) wis
       (replicate nvox (replicate ncomp 0))"

text \<open>
  Modelled from the spec: running a pipeline. \<open>None\<close> is a filter that reports an error
  and produces no image: no input image, a component out of range, a luminance input
  that has not three components, a weighted sum without inputs, with inputs of
  different shapes, or with a number of weights other than the number of inputs.
\<close>

fun Update :: "pipeline \<Rightarrow> image_data option" where
  "Update (ImageDataConnection img) = img"
| "Update (ImageExtractComponents p cs) =
     (case Update p of
        None \<Rightarrow> None
      | Some img \<Rightarrow>
          if cs \<noteq> [] \<and> (\<forall>c \<in> set cs. 0 \<le> c \<and> c < int (numberOfComponents img))
          then Some (img\<lparr>numberOfComponents := length cs,
                          voxels := map (\<lambda>v. map (\<lambda>c. v ! nat c) cs) (voxels img)\<rparr>)
          else None)"
| "Update (ImageLuminance p) =
     (case Update p of
        None \<Rightarrow> None
      | Some img \<Rightarrow>
          if numberOfComponents img = 3
          then Some (img\<lparr>numberOfComponents := 1,
                          voxels := map (\<lambda>v. [cast_value (scalarType img)
                                      (30 / 100 * v ! 0 + 59 / 100 * v ! 1 + 11 / 100 * v ! 2)])
                                      (voxels img)\<rparr>)
          else None)"
| "Update (ImageCast p t) =
     (case Update p of
        None \<Rightarrow> None
      | Some img \<Rightarrow>
          Some (img\<lparr>scalarType := t, voxels := map (map (cast_value t)) (voxels img)\<rparr>))"
| "Update (ImageMathematicsAddConstant p c) =
     (case Update p of
        None \<Rightarrow> None
      | Some img \<Rightarrow>
          Some (img\<lparr>voxels := map (map (\<lambda>x. cast_value (scalarType img) (x + c))) (voxels img)\<rparr>))"
| "Update (ImageWeightedSum ps ws nrm) =
     (case map Update ps of
        [] \<Rightarrow> None
      | None # rs \<Rightarrow> None
      | Some img # rs \<Rightarrow>
          if length ws = length ps
             \<and> (\<forall>r \<in> set rs. \<exists>img'. r = Some img'
                   \<and> dimensions img' = dimensions img \<and> scalarType img' = scalarType img
                   \<and> numberOfComponents img' = numberOfComponents img
                   \<and> length (voxels img') = length (voxels img))
          then
            let total = weighted_voxels (length (voxels img)) (numberOfComponents img)
                          (zip ws (map (\<lambda>r. case r of None \<Rightarrow> [] | Some i \<Rightarrow> voxels i)
                                       (Some img # rs)));
                d = (if nrm \<and> sum_list ws \<noteq> 0 then sum_list ws else 1)
            in Some (img\<lparr>voxels := map (map (\<lambda>x. cast_value (scalarType img) (x / d))) total\<rparr>)
          else None)"

text \<open>
  Modelled from the spec: \<^verbatim>\<open>GetScalarRange()\<close> of an image, the least and the greatest
  value of the first component over all voxels (\<open>None\<close> for an image without voxels).
\<close>

definition GetScalarRange :: "image_data \<Rightarrow> (rat \<times> rat) option" where
  "GetScalarRange img =
     (if voxels img = [] then None
      else Some (Min (set (map (\<lambda>v. v ! 0) (voxels img))),
                 Max (set (map (\<lambda>v. v ! 0) (voxels img)))))"

subsection \<open>The three conversions\<close>

text \<open>Reading and writing the nodes of the scene.\<close>

definition GetImageDataConnection :: "node_id \<Rightarrow> scene \<Rightarrow> pipeline" where
  "GetImageDataConnection i s =
     ImageDataConnection (case s i of None \<Rightarrow> None | Some n \<Rightarrow> imageData n)"

definition SetIJKToRASMatrix :: "node_id \<Rightarrow> matrix4x4 \<Rightarrow> scene \<Rightarrow> scene" where
  "SetIJKToRASMatrix i m s =
     (case s i of None \<Rightarrow> s | Some n \<Rightarrow> s(i \<mapsto> n\<lparr>ijkToRAS := m\<rparr>))"

definition SetAndObserveImageData :: "node_id \<Rightarrow> image_data option \<Rightarrow> scene \<Rightarrow> scene" where
  "SetAndObserveImageData i img s =
     (case s i of None \<Rightarrow> s | Some n \<Rightarrow> s(i \<mapsto> n\<lparr>imageData := img\<rparr>))"

text \<open>
  \<^verbatim>\<open>SetImageDataConnection(port)\<close>: the image of the node is the output of the filter
  behind the port.
\<close>

definition SetImageDataConnection :: "node_id \<Rightarrow> pipeline \<Rightarrow> scene \<Rightarrow> scene" where
  "SetImageDataConnection i p s = SetAndObserveImageData i (Update p) s"

text \<open>
  The first three lines of each conversion copy the matrix of the input node to the
  output node. The conversions receive node objects; a call on a missing node is the
  \<^verbatim>\<open>AttributeError\<close> of a call on \<^verbatim>\<open>None\<close>.
\<close>

definition copyIJKToRAS :: "node_id \<Rightarrow> node_id \<Rightarrow> scene \<Rightarrow> error + scene" where
  "copyIJKToRAS i out s =
     (case s i of
        None \<Rightarrow> Inl (AttributeError ''GetIJKToRASMatrix'')
      | Some inputNode \<Rightarrow>
          (case s out of
             None \<Rightarrow> Inl (AttributeError ''SetIJKToRASMatrix'')
           | Some outputNode \<Rightarrow> Inr (SetIJKToRASMatrix out (ijkToRAS inputNode) s)))"

definition singleComponentPipeline :: "node_id \<Rightarrow> int \<Rightarrow> scene \<Rightarrow> pipeline" where
  "singleComponentPipeline i componentToExtract s =
     ImageExtractComponents (GetImageDataConnection i s) [componentToExtract]"

definition runConversionMethodSingleComponent ::
  "node_id \<Rightarrow> node_id \<Rightarrow> int \<Rightarrow> scene \<Rightarrow> error option \<times> scene" where
  "runConversionMethodSingleComponent i out componentToExtract s =
     (case copyIJKToRAS i out s of
        Inl e \<Rightarrow> (Some e, s)
      | Inr s1 \<Rightarrow>
          (None, SetImageDataConnection out (singleComponentPipeline i componentToExtract s1) s1))"

definition luminancePipeline :: "node_id \<Rightarrow> scene \<Rightarrow> pipeline" where
  "luminancePipeline i s =
     ImageLuminance (ImageExtractComponents (GetImageDataConnection i s) [0, 1, 2])"

definition runConversionMethodLuminance ::
  "node_id \<Rightarrow> node_id \<Rightarrow> scene \<Rightarrow> error option \<times> scene" where
  "runConversionMethodLuminance i out s =
     (case copyIJKToRAS i out s of
        Inl e \<Rightarrow> (Some e, s)
      | Inr s1 \<Rightarrow> (None, SetImageDataConnection out (luminancePipeline i s1) s1))"

text \<open>
  The average: the two \<^verbatim>\<open>for comp in range(numberOfComponents)\<close> loops set one weight
  and add one input connection per component; the branch on the scalar type inserts the
  filter that adds 0.5.
\<close>

definition averagePipeline :: "node_id \<Rightarrow> nat \<Rightarrow> scalar_type \<Rightarrow> scene \<Rightarrow> pipeline" where
  "averagePipeline i n t s =
     (let evenWeight = 1 / of_nat n;
          weights = map (\<lambda>comp. evenWeight) [0..<n];
          inputs = map (\<lambda>comp. ImageCast
                      (ImageExtractComponents (GetImageDataConnection i s) [int comp]) VTK_DOUBLE)
                    [0..<n];
          weightedSum = ImageWeightedSum inputs weights False
      in if t = VTK_FLOAT \<or> t = VTK_DOUBLE
         then ImageCast weightedSum t
         else ImageCast (ImageMathematicsAddConstant weightedSum (5 / 10)) t)"

definition runConversionMethodAverage ::
  "node_id \<Rightarrow> node_id \<Rightarrow> scene \<Rightarrow> error option \<times> scene" where
  "runConversionMethodAverage i out s =
     (case copyIJKToRAS i out s of
        Inl e \<Rightarrow> (Some e, s)
      | Inr s1 \<Rightarrow>
          (case s1 i of
             None \<Rightarrow> (Some (AttributeError ''GetImageData''), s1)
           | Some inputNode \<Rightarrow>
          (case imageData inputNode of
             None \<Rightarrow> (Some (AttributeError ''GetNumberOfScalarComponents''), s1)
           | Some inputImage \<Rightarrow>
               let n = numberOfComponents inputImage in
               if n = 0 then (Some ZeroDivisionError, s1)
               else (None, SetAndObserveImageData out
                             (Update (averagePipeline i n (scalarType inputImage) s1)) s1))))"

subsection \<open>Running a conversion\<close>

text \<open>
  \<^verbatim>\<open>run\<close> returns the exception it raises, if any, and the scene it leaves. The three
  \<^verbatim>\<open>if\<close> statements on the conversion method follow one another. The first argument
  is the binding of the name \<^verbatim>\<open>_t\<close>, used for the message of a \<^verbatim>\<open>None\<close> parameter
  node: no import statement of the module binds it by name, so it is bound only if the
  star import of \<^verbatim>\<open>slicer.ScriptedLoadableModule\<close> provides it.
\<close>

definition and_then ::
  "error option \<times> scene \<Rightarrow> (scene \<Rightarrow> error option \<times> scene) \<Rightarrow> error option \<times> scene" where
  "and_then r f = (case r of (Some e, s) \<Rightarrow> (Some e, s) | (None, s) \<Rightarrow> f s)"

definition run ::
  "(string \<Rightarrow> string) option \<Rightarrow> VectorToScalarVolumeParameterNode option \<Rightarrow> scene
     \<Rightarrow> error option \<times> scene" where
  "run tr_t parameterNode s =
     (case parameterNode of
        None \<Rightarrow>
          (case tr_t of
             None \<Rightarrow> (Some (NameError ''_t''), s)
           | Some t \<Rightarrow> (Some (ValueError (t ''Invalid Parameter Node: None'')), s))
      | Some pn \<Rightarrow>
          let inputVolumeNode = node_of s (InputVolume pn);
              outputVolumeNode = node_of s (OutputVolume pn);
              conversionMethod = ConversionMethod pn;
              componentToExtract = ComponentToExtract pn
          in
          (case isValidInputOutputData inputVolumeNode outputVolumeNode
                  (Member conversionMethod) componentToExtract of
             Inl e \<Rightarrow> (Some e, s)
           | Inr (Invalid msg) \<Rightarrow> (Some (ValueError msg), s)
           | Inr Valid \<Rightarrow>
               (case (inputVolumeNode, outputVolumeNode) of
                  (Some (i, inputNode), Some (out, outputNode)) \<Rightarrow>
                    and_then
                      (and_then
                         (if conversionMethod = SINGLE_COMPONENT
                          then runConversionMethodSingleComponent i out componentToExtract s
                          else (None, s))
                         (\<lambda>s1. if conversionMethod = LUMINANCE
                               then runConversionMethodLuminance i out s1
                               else (None, s1)))
                      (\<lambda>s2. if conversionMethod = AVERAGE
                            then runConversionMethodAverage i out s2
                            else (None, s2))
                | _ \<Rightarrow> (Some (AttributeError ''GetIJKToRASMatrix''), s))))"

text \<open>
  \<^verbatim>\<open>runWithVariables\<close> fills a parameter node with its four arguments and runs it.
\<close>

definition runWithVariables ::
  "(string \<Rightarrow> string) option \<Rightarrow> node_id option \<Rightarrow> node_id option \<Rightarrow> ConversionMethods \<Rightarrow> int
     \<Rightarrow> scene \<Rightarrow> error option \<times> scene" where
  "runWithVariables tr_t inputVolumeNode outputVolumeNode conversionMethod componentToExtract s =
     run tr_t (Some \<lparr>InputVolume = inputVolumeNode, OutputVolume = outputVolumeNode,
                     ConversionMethod = conversionMethod,
                     ComponentToExtract = componentToExtract\<rparr>) s"

subsection \<open>The input of the module's test\<close>

text \<open>
  \<^verbatim>\<open>test_VectorToScalarVolume1\<close> adds a vector volume node to an empty scene, with a
  7x8x9 array of \<^verbatim>\<open>uint8\<close> voxels, each with the components 30, 50 and 100, and a
  scalar volume node without image. New nodes carry the identity matrix.
\<close>

definition identity4x4 :: matrix4x4 where
  "identity4x4 = [[1, 0, 0, 0], [0, 1, 0, 0], [0, 0, 1, 0], [0, 0, 0, 1]]"

definition test_image :: image_data where
  "test_image =
     \<lparr>dimensions = (9, 8, 7), scalarType = VTK_UNSIGNED_CHAR, numberOfComponents = 3,
      voxels = replicate (7 * 8 * 9) [30, 50, 100]\<rparr>"

definition inputVolume :: node_id where
  "inputVolume = ''vtkMRMLVectorVolumeNode1''"

definition outputVolume :: node_id where
  "outputVolume = ''vtkMRMLScalarVolumeNode1''"

definition test_scene :: scene where
  "test_scene =
     [inputVolume \<mapsto> \<lparr>imageData = Some test_image, ijkToRAS = identity4x4\<rparr>,
      outputVolume \<mapsto> \<lparr>imageData = None, ijkToRAS = identity4x4\<rparr>]"

text \<open>
  The test reads \<^verbatim>\<open>outputVolume.GetImageData().GetScalarRange()\<close> after each run. The
  scalar image with the dimensions of the test input and one value in every voxel, and
  the test scene with such an image in the output node, state its expected results.
\<close>

definition GetOutputScalarRange :: "scene \<Rightarrow> (rat \<times> rat) option" where
  "GetOutputScalarRange s =
     (case s outputVolume of
        None \<Rightarrow> None
      | Some n \<Rightarrow> (case imageData n of None \<Rightarrow> None | Some img \<Rightarrow> GetScalarRange img))"

definition constant_image :: "rat \<Rightarrow> image_data" where
  "constant_image x =
     \<lparr>dimensions = (9, 8, 7), scalarType = VTK_UNSIGNED_CHAR, numberOfComponents = 1,
      voxels = replicate (7 * 8 * 9) [x]\<rparr>"

definition test_output :: "rat \<Rightarrow> scene" where
  "test_output x =
     test_scene(outputVolume \<mapsto> \<lparr>imageData = Some (constant_image x), ijkToRAS = identity4x4\<rparr>)"

subsection \<open>The cases of failure as the specification lists them\<close>

text \<open>
  The specification lists the cases in which validation fails: no input volume, no
  output volume, an unrecognized conversion method, a component to extract outside
  \<open>[0, numberOfComponents - 1]\<close> for the single component method, fewer than three
  components for the luminance method. \<open>claimed_failure_cases\<close> follows these words;
  it is compared with \<open>isValidInputOutputData\<close> below. \<open>same_volume\<close> is the case
  that the list leaves out.
\<close>

definition number_of_components :: "(node_id \<times> volume_node) option \<Rightarrow> nat option" where
  "number_of_components inputVolumeNode =
     (case inputVolumeNode of
        None \<Rightarrow> None
      | Some (i, n) \<Rightarrow>
          (case imageData n of None \<Rightarrow> None | Some img \<Rightarrow> Some (numberOfComponents img)))"

definition claimed_failure_cases ::
  "(node_id \<times> volume_node) option \<Rightarrow> (node_id \<times> volume_node) option \<Rightarrow> method_value \<Rightarrow> int
     \<Rightarrow> bool" where
  "claimed_failure_cases inputVolumeNode outputVolumeNode conversionMethod componentToExtract =
     (inputVolumeNode = None \<or> outputVolumeNode = None
      \<or> (case conversionMethod of
            NotMember m \<Rightarrow> True
          | Member method \<Rightarrow>
              (case number_of_components inputVolumeNode of
                 None \<Rightarrow> False
               | Some n \<Rightarrow>
                   (method = SINGLE_COMPONENT
                      \<and> \<not> (0 \<le> componentToExtract \<and> componentToExtract \<le> int n - 1))
                   \<or> (method = LUMINANCE \<and> n < 3))))"

definition same_volume ::
  "(node_id \<times> volume_node) option \<Rightarrow> (node_id \<times> volume_node) option \<Rightarrow> bool" where
  "same_volume inputVolumeNode outputVolumeNode =
     (case (inputVolumeNode, outputVolumeNode) of
        (Some (i, n), Some (out, n')) \<Rightarrow> i = out
      | _ \<Rightarrow> False)"

subsection \<open>The average as the specification describes it\<close>

text \<open>
  The specification describes the average of a voxel: the components, as doubles, summed
  with the equal weight \<open>1 / numberOfComponents\<close>, the constant 0.5 added when the
  scalar type is an integer type, and the result cast to the scalar type of the input.
  \<open>average_value\<close> follows these words; it is compared below with the output of the
  pipeline that \<open>runConversionMethodAverage\<close> builds. \<open>component_image\<close> is the image
  of one component of an image, as doubles.
\<close>

definition average_value :: "scalar_type \<Rightarrow> nat \<Rightarrow> rat list \<Rightarrow> rat" where
  "average_value t n v =
     cast_value t ((\<Sum>c<n. v ! c) / of_nat n + (if is_floating t then 0 else 1 / 2))"

definition component_image :: "image_data \<Rightarrow> nat \<Rightarrow> image_data" where
  "component_image img c =
     img\<lparr>numberOfComponents := 1, voxels := map (\<lambda>v. [v ! c]) (voxels img),
         scalarType := VTK_DOUBLE\<rparr>"

section \<open>The download utilities of \<^verbatim>\<open>slicer.util\<close>\<close>

subsection \<open>The host and the files\<close>




subsection \<open>Checksums\<close>







subsection \<open>\<^verbatim>\<open>downloadFile\<close>\<close>



subsection \<open>\<^verbatim>\<open>extractArchive\<close>\<close>






subsection \<open>\<^verbatim>\<open>downloadAndExtractArchive\<close>\<close>





section \<open>Properties of the module\<close>

subsection \<open>Validation and dispatch\<close>

lemma node_of_Some: "node_of s r = Some (i, n) \<longleftrightarrow> r = Some i \<and> s i = Some n"
  by (auto simp: node_of_def split: option.splits)

lemma run_invalid:
  assumes "isValidInputOutputData (node_of s (InputVolume pn)) (node_of s (OutputVolume pn))
             (Member (ConversionMethod pn)) (ComponentToExtract pn) = Inr (Invalid msg)"
  shows "run t (Some pn) s = (Some (ValueError msg), s)"
  using assms by (simp add: run_def)

lemma run_validation_raises:
  assumes "isValidInputOutputData (node_of s (InputVolume pn)) (node_of s (OutputVolume pn))
             (Member (ConversionMethod pn)) (ComponentToExtract pn) = Inl e"
  shows "run t (Some pn) s = (Some e, s)"
  using assms by (simp add: run_def)

lemma valid_nodes:
  assumes "isValidInputOutputData a b m c = Inr Valid"
  shows "\<exists>i inN out outN img meth.
           a = Some (i, inN) \<and> b = Some (out, outN) \<and> i \<noteq> out \<and> m = Member meth
           \<and> imageData inN = Some img
           \<and> (meth = SINGLE_COMPONENT \<longrightarrow> 0 \<le> c \<and> c < int (numberOfComponents img))
           \<and> (meth = LUMINANCE \<longrightarrow> 3 \<le> numberOfComponents img)"
  using assms
  by (auto simp: isValidInputOutputData_def Let_def
           split: option.splits if_splits method_value.splits)

lemma run_valid:
  assumes "isValidInputOutputData (node_of s (InputVolume pn)) (node_of s (OutputVolume pn))
             (Member (ConversionMethod pn)) (ComponentToExtract pn) = Inr Valid"
  shows "\<exists>i out. InputVolume pn = Some i \<and> OutputVolume pn = Some out \<and> i \<noteq> out \<and>
     run t (Some pn) s =
       (case ConversionMethod pn of
          SINGLE_COMPONENT \<Rightarrow> runConversionMethodSingleComponent i out (ComponentToExtract pn) s
        | LUMINANCE \<Rightarrow> runConversionMethodLuminance i out s
        | AVERAGE \<Rightarrow> runConversionMethodAverage i out s)"
proof -
  from valid_nodes[OF assms] obtain i inN out outN where
    n: "node_of s (InputVolume pn) = Some (i, inN)"
       "node_of s (OutputVolume pn) = Some (out, outN)" "i \<noteq> out"
    by blast
  then have io: "InputVolume pn = Some i" "OutputVolume pn = Some out"
    by (simp_all add: node_of_Some)
  have "run t (Some pn) s =
       (case ConversionMethod pn of
          SINGLE_COMPONENT \<Rightarrow> runConversionMethodSingleComponent i out (ComponentToExtract pn) s
        | LUMINANCE \<Rightarrow> runConversionMethodLuminance i out s
        | AVERAGE \<Rightarrow> runConversionMethodAverage i out s)"
    using assms n
    by (cases "ConversionMethod pn")
       (auto simp: run_def and_then_def runConversionMethodSingleComponent_def
          runConversionMethodLuminance_def runConversionMethodAverage_def Let_def
          split: sum.splits option.splits prod.splits)
  with io n show ?thesis by blast
qed

text \<open>
  Claim C9. A parameter node whose input and output volume are the same node of the
  scene is rejected: \<open>run\<close> raises the \<^verbatim>\<open>ValueError\<close> of the same-volume check and
  leaves the scene as it was, whatever the conversion method, the component to extract
  and the image of the node are. The check comes before every check on the method: the
  result does not depend on the method, on the component or on the image, not even on
  the node having an image at all.
\<close>

theorem run_same_volume_rejected:
  assumes "InputVolume pn = Some i" and "OutputVolume pn = Some i" and "s i = Some n"
  shows "run t (Some pn) s = (Some (ValueError msg_same_volume), s)"
  using assms by (simp add: run_def isValidInputOutputData_def node_of_def)

theorem run_same_volume_rejected_witness:
  "run None (Some \<lparr>InputVolume = Some inputVolume, OutputVolume = Some inputVolume,
                    ConversionMethod = LUMINANCE, ComponentToExtract = 0\<rparr>) test_scene
     = (Some (ValueError msg_same_volume), test_scene)"
  using run_same_volume_rejected
          [of "\<lparr>InputVolume = Some inputVolume, OutputVolume = Some inputVolume,
                ConversionMethod = LUMINANCE, ComponentToExtract = 0\<rparr>"
              inputVolume test_scene "\<lparr>imageData = Some test_image, ijkToRAS = identity4x4\<rparr>" None]
  by (simp add: test_scene_def inputVolume_def outputVolume_def)

lemma run_error_cases:
  assumes "isValidInputOutputData (node_of s (InputVolume pn)) (node_of s (OutputVolume pn))
             (Member (ConversionMethod pn)) (ComponentToExtract pn) \<noteq> Inr Valid"
  shows "fst (run t (Some pn) s) \<noteq> None \<and> snd (run t (Some pn) s) = s"
proof (cases "isValidInputOutputData (node_of s (InputVolume pn)) (node_of s (OutputVolume pn))
             (Member (ConversionMethod pn)) (ComponentToExtract pn)")
  case (Inl e)
  then show ?thesis by (simp add: run_validation_raises)
next
  case (Inr v)
  with assms obtain msg where "v = Invalid msg" by (cases v) auto
  with Inr show ?thesis by (simp add: run_invalid)
qed

lemma invalid_iff:
  "(\<exists>msg. isValidInputOutputData a b m c = Inr (Invalid msg))
     \<longleftrightarrow> claimed_failure_cases a b m c \<or> same_volume a b"
  by (auto simp: isValidInputOutputData_def claimed_failure_cases_def same_volume_def
        number_of_components_def Let_def
      split: option.splits method_value.splits prod.splits if_splits)

lemma conversions_no_ValueError:
  "fst (runConversionMethodSingleComponent i out c s) \<noteq> Some (ValueError msg)"
  "fst (runConversionMethodLuminance i out s) \<noteq> Some (ValueError msg)"
  "fst (runConversionMethodAverage i out s) \<noteq> Some (ValueError msg)"
  by (auto simp: runConversionMethodSingleComponent_def runConversionMethodLuminance_def
        runConversionMethodAverage_def copyIJKToRAS_def Let_def
      split: sum.splits option.splits if_splits)

lemma run_ValueError_iff:
  "fst (run t (Some pn) s) = Some (ValueError msg)
     \<longleftrightarrow> isValidInputOutputData (node_of s (InputVolume pn)) (node_of s (OutputVolume pn))
             (Member (ConversionMethod pn)) (ComponentToExtract pn) = Inr (Invalid msg)"
proof (cases "isValidInputOutputData (node_of s (InputVolume pn)) (node_of s (OutputVolume pn))
             (Member (ConversionMethod pn)) (ComponentToExtract pn)")
  case (Inl e)
  then have "\<exists>a. e = AttributeError a"
    by (auto simp: isValidInputOutputData_def Let_def
          split: option.splits method_value.splits prod.splits if_splits)
  with Inl show ?thesis by (auto simp: run_validation_raises)
next
  case (Inr v)
  show ?thesis
  proof (cases v)
    case Valid
    from run_valid[OF Inr[unfolded Valid], of t] show ?thesis
      using Inr Valid conversions_no_ValueError
      by (cases "ConversionMethod pn") auto
  next
    case (Invalid m)
    with Inr show ?thesis by (simp add: run_invalid)
  qed
qed

lemma copy_out:
  "copyIJKToRAS i out s = Inr s1 \<Longrightarrow>
     \<exists>inN outN. s i = Some inN \<and> s out = Some outN \<and> s1 = s(out \<mapsto> outN\<lparr>ijkToRAS := ijkToRAS inN\<rparr>)"
  by (auto simp: copyIJKToRAS_def SetIJKToRASMatrix_def split: option.splits)

lemma single_frame:
  assumes "runConversionMethodSingleComponent i out c s = (None, s')"
  shows "\<exists>inN outN img. s i = Some inN \<and> s out = Some outN \<and>
     s' = s(out \<mapsto> outN\<lparr>ijkToRAS := ijkToRAS inN, imageData := img\<rparr>)"
  using assms
  by (auto simp: runConversionMethodSingleComponent_def SetImageDataConnection_def
        SetAndObserveImageData_def
      split: sum.splits dest!: copy_out)

lemma lum_frame:
  assumes "runConversionMethodLuminance i out s = (None, s')"
  shows "\<exists>inN outN img. s i = Some inN \<and> s out = Some outN \<and>
     s' = s(out \<mapsto> outN\<lparr>ijkToRAS := ijkToRAS inN, imageData := img\<rparr>)"
  using assms
  by (auto simp: runConversionMethodLuminance_def SetImageDataConnection_def
        SetAndObserveImageData_def
      split: sum.splits dest!: copy_out)

lemma avg_frame:
  assumes "runConversionMethodAverage i out s = (None, s')"
  shows "\<exists>inN outN img. s i = Some inN \<and> s out = Some outN \<and>
     s' = s(out \<mapsto> outN\<lparr>ijkToRAS := ijkToRAS inN, imageData := img\<rparr>)"
  using assms
  by (auto simp: runConversionMethodAverage_def SetAndObserveImageData_def Let_def
      split: sum.splits option.splits if_splits dest!: copy_out)

lemma conversions_frame:
  assumes "(case m of
          SINGLE_COMPONENT \<Rightarrow> runConversionMethodSingleComponent i out c s
        | LUMINANCE \<Rightarrow> runConversionMethodLuminance i out s
        | AVERAGE \<Rightarrow> runConversionMethodAverage i out s) = (None, s')"
  shows "\<exists>inN outN img. s i = Some inN \<and> s out = Some outN \<and>
     s' = s(out \<mapsto> outN\<lparr>ijkToRAS := ijkToRAS inN, imageData := img\<rparr>)"
proof (cases m)
  case LUMINANCE
  with assms have "runConversionMethodLuminance i out s = (None, s')" by simp
  from lum_frame[OF this] show ?thesis by blast
next
  case AVERAGE
  with assms have "runConversionMethodAverage i out s = (None, s')" by simp
  from avg_frame[OF this] show ?thesis by blast
next
  case SINGLE_COMPONENT
  with assms have "runConversionMethodSingleComponent i out c s = (None, s')" by simp
  from single_frame[OF this] show ?thesis by blast
qed

lemma pipelines_ignore_output:
  assumes "i \<noteq> out"
  shows "singleComponentPipeline i c (s(out \<mapsto> n)) = singleComponentPipeline i c s"
    and "luminancePipeline i (s(out \<mapsto> n)) = luminancePipeline i s"
    and "averagePipeline i k ty (s(out \<mapsto> n)) = averagePipeline i k ty s"
  using assms
  by (simp_all add: singleComponentPipeline_def luminancePipeline_def averagePipeline_def
        GetImageDataConnection_def)

lemma single_again:
  assumes "i \<noteq> out" "runConversionMethodSingleComponent i out c s = (None, s')"
  shows "runConversionMethodSingleComponent i out c s' = (None, s')"
  using assms
  by (auto simp: runConversionMethodSingleComponent_def SetImageDataConnection_def
        SetAndObserveImageData_def copyIJKToRAS_def SetIJKToRASMatrix_def pipelines_ignore_output
      split: sum.splits option.splits)

lemma lum_again:
  assumes "i \<noteq> out" "runConversionMethodLuminance i out s = (None, s')"
  shows "runConversionMethodLuminance i out s' = (None, s')"
  using assms
  by (auto simp: runConversionMethodLuminance_def SetImageDataConnection_def
        SetAndObserveImageData_def copyIJKToRAS_def SetIJKToRASMatrix_def pipelines_ignore_output
      split: sum.splits option.splits)

lemma avg_again:
  assumes "i \<noteq> out" "runConversionMethodAverage i out s = (None, s')"
  shows "runConversionMethodAverage i out s' = (None, s')"
  using assms
  by (auto simp: runConversionMethodAverage_def SetAndObserveImageData_def Let_def
        copyIJKToRAS_def SetIJKToRASMatrix_def pipelines_ignore_output
      split: sum.splits option.splits if_splits)

lemma valid_ignores_output:
  assumes "InputVolume pn = Some i" "OutputVolume pn = Some out" "i \<noteq> out" "s out = Some outN"
  shows "isValidInputOutputData (node_of (s(out \<mapsto> n)) (InputVolume pn))
           (node_of (s(out \<mapsto> n)) (OutputVolume pn)) m c
         = isValidInputOutputData (node_of s (InputVolume pn)) (node_of s (OutputVolume pn)) m c"
  using assms
  by (auto simp: isValidInputOutputData_def node_of_def split: option.splits)

lemma io_neq: "inputVolume \<noteq> outputVolume"
  by (simp add: inputVolume_def outputVolume_def)

lemma test_scene_nodes:
  "test_scene inputVolume = Some \<lparr>imageData = Some test_image, ijkToRAS = identity4x4\<rparr>"
  "test_scene outputVolume = Some \<lparr>imageData = None, ijkToRAS = identity4x4\<rparr>"
  using io_neq by (simp_all add: test_scene_def)

text \<open>
  Claim C1, as amended. For every parameter node, \<open>run\<close> raises a \<^verbatim>\<open>ValueError\<close> with
  a message exactly when validation fails with that message; and validation fails
  exactly in the cases that the specification lists or when the input and the output
  volume are the same node. As the claim states it, without the same-volume case, it is
  refuted below.
\<close>

theorem run_raises_ValueError_iff_validation_fails:
  "(fst (run t (Some pn) s) = Some (ValueError msg)
      \<longleftrightarrow> isValidInputOutputData (node_of s (InputVolume pn)) (node_of s (OutputVolume pn))
             (Member (ConversionMethod pn)) (ComponentToExtract pn) = Inr (Invalid msg))
   \<and> ((\<exists>msg. isValidInputOutputData a b m c = Inr (Invalid msg))
      \<longleftrightarrow> claimed_failure_cases a b m c \<or> same_volume a b)"
  using run_ValueError_iff invalid_iff by blast

theorem run_raises_ValueError_iff_validation_fails_witness:
  "fst (run None (Some \<lparr>InputVolume = Some inputVolume, OutputVolume = None,
                         ConversionMethod = LUMINANCE, ComponentToExtract = 0\<rparr>) test_scene)
     = Some (ValueError msg_no_output)
   \<and> claimed_failure_cases (node_of test_scene (Some inputVolume)) (node_of test_scene None)
        (Member LUMINANCE) 0"
proof -
  let ?pn = "\<lparr>InputVolume = Some inputVolume, OutputVolume = None,
              ConversionMethod = LUMINANCE, ComponentToExtract = 0\<rparr>"
  have v: "isValidInputOutputData (node_of test_scene (InputVolume ?pn))
             (node_of test_scene (OutputVolume ?pn)) (Member (ConversionMethod ?pn))
             (ComponentToExtract ?pn) = Inr (Invalid msg_no_output)"
    by (simp add: isValidInputOutputData_def node_of_def test_scene_nodes)
  from run_raises_ValueError_iff_validation_fails
         [of None ?pn test_scene msg_no_output "node_of test_scene (Some inputVolume)"
             "node_of test_scene None" "Member LUMINANCE" 0] v
  show ?thesis
    by (simp add: claimed_failure_cases_def node_of_def)
qed

text \<open>
  The claim as stated fails: with the input volume of the test selected as input and as
  output and the average method, \<open>run\<close> raises a \<^verbatim>\<open>ValueError\<close> although an input
  and an output are selected, the method is recognized, and it is neither the single
  component nor the luminance method.
\<close>

theorem same_volume_counterexample:
  "fst (run None (Some \<lparr>InputVolume = Some inputVolume, OutputVolume = Some inputVolume,
                    ConversionMethod = AVERAGE, ComponentToExtract = 0\<rparr>) test_scene)
     = Some (ValueError msg_same_volume)
   \<and> \<not> claimed_failure_cases
         (node_of test_scene (Some inputVolume)) (node_of test_scene (Some inputVolume))
         (Member AVERAGE) 0"
  by (simp add: run_def isValidInputOutputData_def node_of_def test_scene_def inputVolume_def
        outputVolume_def claimed_failure_cases_def number_of_components_def)

text \<open>
  Claim C4. When validation fails, \<open>run\<close> raises the \<^verbatim>\<open>ValueError\<close> with the message
  of the failed check and the scene it leaves is the scene it received: no node, so
  neither the image data nor the matrix of the output volume, has changed.
\<close>

theorem run_failed_validation_leaves_scene:
  assumes "isValidInputOutputData (node_of s (InputVolume pn)) (node_of s (OutputVolume pn))
             (Member (ConversionMethod pn)) (ComponentToExtract pn) = Inr (Invalid msg)"
  shows "run t (Some pn) s = (Some (ValueError msg), s)"
  using assms by (rule run_invalid)

theorem run_failed_validation_leaves_scene_witness:
  "run None (Some \<lparr>InputVolume = None, OutputVolume = Some outputVolume,
                    ConversionMethod = AVERAGE, ComponentToExtract = 0\<rparr>) test_scene
     = (Some (ValueError msg_no_input), test_scene)"
proof -
  let ?pn = "\<lparr>InputVolume = None, OutputVolume = Some outputVolume,
              ConversionMethod = AVERAGE, ComponentToExtract = 0\<rparr>"
  have v: "isValidInputOutputData (node_of test_scene (InputVolume ?pn))
             (node_of test_scene (OutputVolume ?pn)) (Member (ConversionMethod ?pn))
             (ComponentToExtract ?pn) = Inr (Invalid msg_no_input)"
    by (simp add: isValidInputOutputData_def node_of_def)
  show ?thesis by (rule run_failed_validation_leaves_scene[OF v])
qed

text \<open>
  Claim C6. For a parameter node that passes validation, \<open>run\<close> is the conversion that
  its conversion method names, and none of the other two: the result of \<open>run\<close> is the
  result of that one conversion on the selected nodes. \<open>run\<close> is a function of the
  parameter node and the scene alone (the logic object has no state), and running it
  again on the scene it produced gives the same scene.
\<close>

theorem run_dispatches_on_method:
  assumes "isValidInputOutputData (node_of s (InputVolume pn)) (node_of s (OutputVolume pn))
             (Member (ConversionMethod pn)) (ComponentToExtract pn) = Inr Valid"
  shows "\<exists>i out. InputVolume pn = Some i \<and> OutputVolume pn = Some out \<and>
     run t (Some pn) s =
       (case ConversionMethod pn of
          SINGLE_COMPONENT \<Rightarrow> runConversionMethodSingleComponent i out (ComponentToExtract pn) s
        | LUMINANCE \<Rightarrow> runConversionMethodLuminance i out s
        | AVERAGE \<Rightarrow> runConversionMethodAverage i out s) \<and>
     (\<forall>s'. run t (Some pn) s = (None, s') \<longrightarrow> run t (Some pn) s' = (None, s'))"
proof -
  let ?conv = "\<lambda>i out s. (case ConversionMethod pn of
          SINGLE_COMPONENT \<Rightarrow> runConversionMethodSingleComponent i out (ComponentToExtract pn) s
        | LUMINANCE \<Rightarrow> runConversionMethodLuminance i out s
        | AVERAGE \<Rightarrow> runConversionMethodAverage i out s)"
  from run_valid[OF assms, of t] obtain i out where
    io: "InputVolume pn = Some i" "OutputVolume pn = Some out" "i \<noteq> out" and
    r: "run t (Some pn) s = ?conv i out s"
    by blast
  have "run t (Some pn) s' = (None, s')" if ok: "run t (Some pn) s = (None, s')" for s'
  proof -
    from ok r have c: "?conv i out s = (None, s')" by simp
    from conversions_frame[OF c] obtain inN outN img where
      f: "s i = Some inN" "s out = Some outN"
         "s' = s(out \<mapsto> outN\<lparr>ijkToRAS := ijkToRAS inN, imageData := img\<rparr>)"
      by blast
    have v': "isValidInputOutputData (node_of s' (InputVolume pn)) (node_of s' (OutputVolume pn))
             (Member (ConversionMethod pn)) (ComponentToExtract pn) = Inr Valid"
      using assms io f(2) f(3) valid_ignores_output[of pn i out s outN] by simp
    from run_valid[OF v', of t] io have r': "run t (Some pn) s' = ?conv i out s'" by auto
    have "?conv i out s' = (None, s')"
      using c io(3) by (cases "ConversionMethod pn") (simp_all add: single_again lum_again avg_again)
    with r' show ?thesis by simp
  qed
  with io r show ?thesis by blast
qed

theorem run_dispatches_on_method_witness:
  "\<exists>i out. Some inputVolume = Some i \<and> Some outputVolume = Some out \<and>
     run None (Some \<lparr>InputVolume = Some inputVolume, OutputVolume = Some outputVolume,
                ConversionMethod = LUMINANCE, ComponentToExtract = 0\<rparr>) test_scene =
       runConversionMethodLuminance i out test_scene \<and>
     (\<forall>s'. run None (Some \<lparr>InputVolume = Some inputVolume, OutputVolume = Some outputVolume,
                ConversionMethod = LUMINANCE, ComponentToExtract = 0\<rparr>) test_scene = (None, s')
        \<longrightarrow> run None (Some \<lparr>InputVolume = Some inputVolume, OutputVolume = Some outputVolume,
                ConversionMethod = LUMINANCE, ComponentToExtract = 0\<rparr>) s' = (None, s'))"
proof -
  let ?pn = "\<lparr>InputVolume = Some inputVolume, OutputVolume = Some outputVolume,
              ConversionMethod = LUMINANCE, ComponentToExtract = 0\<rparr>"
  have v: "isValidInputOutputData (node_of test_scene (InputVolume ?pn))
             (node_of test_scene (OutputVolume ?pn)) (Member (ConversionMethod ?pn))
             (ComponentToExtract ?pn) = Inr Valid"
    using io_neq
    by (simp add: isValidInputOutputData_def node_of_def test_scene_nodes test_image_def)
  from run_dispatches_on_method[OF v, of None] show ?thesis by simp
qed

subsection \<open>Geometry and frame of a run\<close>

text \<open>
  Claim C10. After a run that raises nothing, the output volume carries the matrix of
  the input volume: each of the three conversions copies it before building its
  pipeline. The input volume node, with its image data, is what it was, and so is every
  node of the scene other than the output volume.
\<close>

theorem run_copies_geometry:
  assumes "run t (Some pn) s = (None, s')"
  shows "\<exists>i out inN outN outN'.
           InputVolume pn = Some i \<and> OutputVolume pn = Some out \<and> i \<noteq> out
           \<and> s i = Some inN \<and> s out = Some outN
           \<and> s' i = Some inN \<and> s' out = Some outN'
           \<and> ijkToRAS outN' = ijkToRAS inN
           \<and> (\<forall>j. j \<noteq> out \<longrightarrow> s' j = s j)"
proof -
  have v: "isValidInputOutputData (node_of s (InputVolume pn)) (node_of s (OutputVolume pn))
             (Member (ConversionMethod pn)) (ComponentToExtract pn) = Inr Valid"
    using assms run_error_cases[of s pn t] by fastforce
  from run_valid[OF v, of t] assms obtain i out where
    io: "InputVolume pn = Some i" "OutputVolume pn = Some out" "i \<noteq> out" and
    r: "(case ConversionMethod pn of
          SINGLE_COMPONENT \<Rightarrow> runConversionMethodSingleComponent i out (ComponentToExtract pn) s
        | LUMINANCE \<Rightarrow> runConversionMethodLuminance i out s
        | AVERAGE \<Rightarrow> runConversionMethodAverage i out s) = (None, s')"
    by auto
  from conversions_frame[OF r] obtain inN outN img where
    f: "s i = Some inN" "s out = Some outN"
       "s' = s(out \<mapsto> outN\<lparr>ijkToRAS := ijkToRAS inN, imageData := img\<rparr>)"
    by blast
  with io show ?thesis by simp
qed

subsection \<open>The output of the pipelines\<close>

lemma cast_double: "cast_value VTK_DOUBLE x = x"
  by (simp add: cast_value_def is_floating_def)

lemma Update_component:
  "c < numberOfComponents img \<Longrightarrow>
   Update (ImageCast (ImageExtractComponents (ImageDataConnection (Some img)) [int c]) VTK_DOUBLE)
     = Some (component_image img c)"
  by (simp add: component_image_def cast_double)

lemma weighted_voxels_components:
  "weighted_voxels (length vs) 1 (map (\<lambda>c. (w, map (\<lambda>v. [v ! c]) vs)) cs)
     = map (\<lambda>v. [\<Sum>c\<leftarrow>cs. w * v ! c]) vs"
proof (induction cs)
  case Nil
  show ?case by (simp add: weighted_voxels_def map_replicate_const)
next
  case (Cons c cs)
  then show ?case
    by (simp add: weighted_voxels_def zip_map_map zip_same_conv_map)
qed


lemma Update_weighted_uniform:
  assumes "map Update ps = map Some (im # rest)" and "length ws = length ps"
    and "\<forall>r \<in> set rest. dimensions r = dimensions im \<and> scalarType r = scalarType im
           \<and> numberOfComponents r = numberOfComponents im
           \<and> length (voxels r) = length (voxels im)"
  shows "Update (ImageWeightedSum ps ws nrm) =
     Some (im\<lparr>voxels := map (map (\<lambda>x. cast_value (scalarType im)
                                   (x / (if nrm \<and> sum_list ws \<noteq> 0 then sum_list ws else 1))))
              (weighted_voxels (length (voxels im)) (numberOfComponents im)
                 (zip ws (map voxels (im # rest))))\<rparr>)"
  using assms by (auto simp: Let_def comp_def)

lemma Update_weighted_components:
  assumes "0 < n" and "n \<le> numberOfComponents img"
  shows "Update (ImageWeightedSum
           (map (\<lambda>comp. ImageCast (ImageExtractComponents (ImageDataConnection (Some img)) [int comp])
                          VTK_DOUBLE) [0..<n])
           (map (\<lambda>comp. w) [0..<n]) False)
     = Some (img\<lparr>numberOfComponents := 1, scalarType := VTK_DOUBLE,
                 voxels := map (\<lambda>v. [\<Sum>c\<leftarrow>[0..<n]. w * v ! c]) (voxels img)\<rparr>)"
proof -
  let ?ps = "map (\<lambda>comp. ImageCast (ImageExtractComponents (ImageDataConnection (Some img)) [int comp])
                          VTK_DOUBLE) [0..<n]"
  let ?ws = "map (\<lambda>comp::nat. w) [0..<n]"
  have A: "map Update ?ps = map Some (map (component_image img) [0..<n])"
    using assms(2) by (simp add: Update_component del: Update.simps)
  have B: "map (component_image img) [0..<n]
             = component_image img 0 # map (component_image img) [1..<n]"
    using assms(1) by (simp add: upt_conv_Cons)
  have Z: "zip ?ws (map voxels (map (component_image img) [0..<n]))
             = map (\<lambda>c. (w, map (\<lambda>v. [v ! c]) (voxels img))) [0..<n]"
    by (simp add: zip_map_map zip_same_conv_map component_image_def)
  have U: "Update (ImageWeightedSum ?ps ?ws False) =
     Some ((component_image img 0)\<lparr>voxels := map (map (\<lambda>x. cast_value VTK_DOUBLE (x / 1)))
              (weighted_voxels (length (voxels img)) 1
                 (zip ?ws (map voxels (map (component_image img) [0..<n]))))\<rparr>)"
    using Update_weighted_uniform[of ?ps "component_image img 0"
            "map (component_image img) [1..<n]" ?ws False] A
    unfolding B by (simp add: component_image_def del: Update.simps)
  show ?thesis
    unfolding U Z weighted_voxels_components
    by (simp add: component_image_def cast_double comp_def)
qed


lemma sum_list_even_weight:
  "(\<Sum>c\<leftarrow>[0..<n]. 1 / of_nat n * v ! c) = (\<Sum>c<n. v ! c) / (of_nat n :: rat)"
  by (simp add: interv_sum_list_conv_sum_set_nat atLeast0LessThan sum_divide_distrib)

lemma Update_averagePipeline:
  assumes "s i = Some inN" and "imageData inN = Some img" and "0 < numberOfComponents img"
  shows "Update (averagePipeline i (numberOfComponents img) (scalarType img) s)
     = Some (img\<lparr>numberOfComponents := 1,
                 voxels := map (\<lambda>v. [average_value (scalarType img) (numberOfComponents img) v])
                             (voxels img)\<rparr>)"
proof -
  let ?n = "numberOfComponents img"
  let ?ws = "ImageWeightedSum
           (map (\<lambda>comp. ImageCast (ImageExtractComponents (ImageDataConnection (Some img)) [int comp])
                          VTK_DOUBLE) [0..<?n])
           (map (\<lambda>comp. 1 / of_nat ?n) [0..<?n]) False"
  have W: "Update ?ws = Some (img\<lparr>numberOfComponents := 1, scalarType := VTK_DOUBLE,
                 voxels := map (\<lambda>v. [(\<Sum>c<?n. v ! c) / of_nat ?n]) (voxels img)\<rparr>)"
    using Update_weighted_components[OF assms(3) order_refl, of "1 / of_nat ?n"]
    by (simp only: sum_list_even_weight)
  have P: "averagePipeline i ?n (scalarType img) s =
      (if is_floating (scalarType img) then ImageCast ?ws (scalarType img)
       else ImageCast (ImageMathematicsAddConstant ?ws (5 / 10)) (scalarType img))"
    using assms(1,2)
    by (simp add: averagePipeline_def GetImageDataConnection_def is_floating_def Let_def)
  show ?thesis
  proof (cases "is_floating (scalarType img)")
    case True
    then show ?thesis
      unfolding P using W
      by (simp add: average_value_def comp_def del: Update.simps(6))
  next
    case False
    then show ?thesis
      unfolding P using W
      by (simp add: average_value_def comp_def cast_double del: Update.simps(6))
  qed
qed


lemma node_upd:
  "(n::volume_node)\<lparr>ijkToRAS := m, imageData := d\<rparr> = \<lparr>imageData = d, ijkToRAS = m\<rparr>"
  by (cases n) simp

lemma single_eq:
  assumes "s i = Some inN" "s out = Some outN" "i \<noteq> out"
  shows "runConversionMethodSingleComponent i out c s =
     (None, s(out \<mapsto> \<lparr>imageData = Update (singleComponentPipeline i c s),
                       ijkToRAS = ijkToRAS inN\<rparr>))"
  using assms
  by (simp add: runConversionMethodSingleComponent_def copyIJKToRAS_def SetIJKToRASMatrix_def
       SetImageDataConnection_def SetAndObserveImageData_def pipelines_ignore_output node_upd
       del: Update.simps)

lemma lum_eq:
  assumes "s i = Some inN" "s out = Some outN" "i \<noteq> out"
  shows "runConversionMethodLuminance i out s =
     (None, s(out \<mapsto> \<lparr>imageData = Update (luminancePipeline i s), ijkToRAS = ijkToRAS inN\<rparr>))"
  using assms
  by (simp add: runConversionMethodLuminance_def copyIJKToRAS_def SetIJKToRASMatrix_def
       SetImageDataConnection_def SetAndObserveImageData_def pipelines_ignore_output node_upd
       del: Update.simps)

lemma avg_eq:
  assumes "s i = Some inN" "s out = Some outN" "i \<noteq> out" "imageData inN = Some img"
  shows "runConversionMethodAverage i out s =
     (if numberOfComponents img = 0
      then (Some ZeroDivisionError, s(out \<mapsto> outN\<lparr>ijkToRAS := ijkToRAS inN\<rparr>))
      else (None, s(out \<mapsto>
              \<lparr>imageData = Update (averagePipeline i (numberOfComponents img) (scalarType img) s),
               ijkToRAS = ijkToRAS inN\<rparr>)))"
  using assms
  by (simp add: runConversionMethodAverage_def copyIJKToRAS_def SetIJKToRASMatrix_def
       SetAndObserveImageData_def pipelines_ignore_output node_upd Let_def
       del: Update.simps)



lemma cast_uchar: "cast_value VTK_UNSIGNED_CHAR x = of_int (truncate_toward_zero x mod 256)"
  by (simp add: cast_value_def is_floating_def)

lemma trunc_99_2: "truncate_toward_zero (99 / 2) = 49"
  by code_simp

lemma trunc_121_2: "truncate_toward_zero (121 / 2) = 60"
  by code_simp

lemma Update_single_test:
  "c = 0 \<or> c = 1 \<Longrightarrow>
   Update (ImageExtractComponents (ImageDataConnection (Some test_image)) [c])
     = Some (constant_image ([30, 50] ! nat c))"
  by (auto simp: test_image_def constant_image_def)

lemma Update_lum_test:
  "Update (ImageLuminance (ImageExtractComponents (ImageDataConnection (Some test_image)) [0, 1, 2]))
     = Some (constant_image 49)"
  by (simp add: test_image_def constant_image_def cast_uchar trunc_99_2)

lemma average_value_test: "average_value VTK_UNSIGNED_CHAR 3 [30, 50, 100] = 60"
  by (simp add: average_value_def cast_uchar is_floating_def trunc_121_2 lessThan_nat_numeral lessThan_Suc)

lemma valid_on_test_input:
  assumes "s inputVolume = Some \<lparr>imageData = Some test_image, ijkToRAS = identity4x4\<rparr>"
    and "s outputVolume = Some n"
    and "m = SINGLE_COMPONENT \<longrightarrow> c = 0 \<or> c = 1"
  shows "isValidInputOutputData (node_of s (Some inputVolume)) (node_of s (Some outputVolume))
           (Member m) c = Inr Valid"
  using assms io_neq
  by (auto simp: isValidInputOutputData_def node_of_def test_image_def)

lemma run_on_test_input:
  assumes "s inputVolume = Some \<lparr>imageData = Some test_image, ijkToRAS = identity4x4\<rparr>"
    and "s outputVolume = Some n"
    and "m = SINGLE_COMPONENT \<longrightarrow> c = 0 \<or> c = 1"
  shows "runWithVariables t (Some inputVolume) (Some outputVolume) m c s =
     (None, s(outputVolume \<mapsto>
        \<lparr>imageData = Some (constant_image
            (case m of SINGLE_COMPONENT \<Rightarrow> [30, 50] ! nat c | LUMINANCE \<Rightarrow> 49 | AVERAGE \<Rightarrow> 60)),
         ijkToRAS = identity4x4\<rparr>))"
proof -
  let ?pn = "\<lparr>InputVolume = Some inputVolume, OutputVolume = Some outputVolume,
              ConversionMethod = m, ComponentToExtract = c\<rparr>"
  have v: "isValidInputOutputData (node_of s (InputVolume ?pn)) (node_of s (OutputVolume ?pn))
             (Member (ConversionMethod ?pn)) (ComponentToExtract ?pn) = Inr Valid"
    using valid_on_test_input[OF assms] by simp
  from run_valid[OF v, of t]
  have r: "run t (Some ?pn) s =
       (case m of
          SINGLE_COMPONENT \<Rightarrow> runConversionMethodSingleComponent inputVolume outputVolume c s
        | LUMINANCE \<Rightarrow> runConversionMethodLuminance inputVolume outputVolume s
        | AVERAGE \<Rightarrow> runConversionMethodAverage inputVolume outputVolume s)"
    by (cases m) simp_all
  have img: "imageData \<lparr>imageData = Some test_image, ijkToRAS = identity4x4\<rparr> = Some test_image"
    by simp
  have n3: "numberOfComponents test_image = 3" "scalarType test_image = VTK_UNSIGNED_CHAR"
    by (simp_all add: test_image_def)
  have avg: "Update (averagePipeline inputVolume 3 VTK_UNSIGNED_CHAR s) = Some (constant_image 60)"
    using Update_averagePipeline[of s inputVolume _ test_image] assms(1) n3
    by (simp add: test_image_def constant_image_def average_value_test)
  show ?thesis
  proof (cases m)
    case LUMINANCE
    then show ?thesis
      using r lum_eq[OF assms(1,2) io_neq] assms(1) Update_lum_test
      by (simp add: runWithVariables_def luminancePipeline_def GetImageDataConnection_def
            del: Update.simps)
  next
    case AVERAGE
    then show ?thesis
      using r avg_eq[OF assms(1,2) io_neq img] avg n3
      by (simp add: runWithVariables_def del: Update.simps)
  next
    case SINGLE_COMPONENT
    then show ?thesis
      using r single_eq[OF assms(1,2) io_neq, of c] assms(1,3) Update_single_test[of c]
      by (simp add: runWithVariables_def singleComponentPipeline_def GetImageDataConnection_def
            del: Update.simps)
  qed
qed

lemma test_output_nodes:
  "test_output x inputVolume = Some \<lparr>imageData = Some test_image, ijkToRAS = identity4x4\<rparr>"
  "test_output x outputVolume = Some \<lparr>imageData = Some (constant_image x), ijkToRAS = identity4x4\<rparr>"
  using io_neq by (simp_all add: test_output_def test_scene_nodes)

lemma test_output_overwrite:
  "(test_output x)(outputVolume \<mapsto> \<lparr>imageData = Some (constant_image y), ijkToRAS = identity4x4\<rparr>)
     = test_output y"
  by (simp add: test_output_def)

lemma run_on_test_scene:
  assumes "m = SINGLE_COMPONENT \<longrightarrow> c = 0 \<or> c = 1"
  shows "runWithVariables t (Some inputVolume) (Some outputVolume) m c test_scene =
     (None, test_output
            (case m of SINGLE_COMPONENT \<Rightarrow> [30, 50] ! nat c | LUMINANCE \<Rightarrow> 49 | AVERAGE \<Rightarrow> 60))"
  using run_on_test_input[OF test_scene_nodes assms, of t]
  by (simp add: test_output_def)

lemma run_on_test_output:
  assumes "m = SINGLE_COMPONENT \<longrightarrow> c = 0 \<or> c = 1"
  shows "runWithVariables t (Some inputVolume) (Some outputVolume) m c (test_output x) =
     (None, test_output
            (case m of SINGLE_COMPONENT \<Rightarrow> [30, 50] ! nat c | LUMINANCE \<Rightarrow> 49 | AVERAGE \<Rightarrow> 60))"
  using run_on_test_input[OF test_output_nodes(1)[of x] test_output_nodes(2)[of x] assms, of t]
  by (simp only: test_output_overwrite)

lemma range_constant: "GetOutputScalarRange (test_output x) = Some (x, x)"
  by (simp add: GetOutputScalarRange_def test_output_nodes GetScalarRange_def constant_image_def)


theorem run_copies_geometry_witness:
  "\<exists>inN outN'. test_scene inputVolume = Some inN \<and> test_output 50 inputVolume = Some inN
       \<and> test_output 50 outputVolume = Some outN' \<and> ijkToRAS outN' = ijkToRAS inN"
proof -
  let ?pn = "\<lparr>InputVolume = Some inputVolume, OutputVolume = Some outputVolume,
              ConversionMethod = SINGLE_COMPONENT, ComponentToExtract = 1\<rparr>"
  have h: "run None (Some ?pn) test_scene = (None, test_output 50)"
    using run_on_test_scene[of SINGLE_COMPONENT 1 None] by (simp add: runWithVariables_def)
  from run_copies_geometry[OF h] show ?thesis by auto
qed

text \<open>
  Claim C2. On the input of the test, the four runs of the test raise nothing and leave
  in the output volume an image with one value in every voxel, and the scalar range of
  the output is that single value: 30 and 50 for the single components 0 and 1, 49 for
  the luminance, 60 for the average.
\<close>

theorem test_VectorToScalarVolume1:
  "runWithVariables t (Some inputVolume) (Some outputVolume) SINGLE_COMPONENT 0 test_scene
     = (None, test_output 30)
   \<and> GetOutputScalarRange (test_output 30) = Some (30, 30)
   \<and> runWithVariables t (Some inputVolume) (Some outputVolume) SINGLE_COMPONENT 1 (test_output 30)
     = (None, test_output 50)
   \<and> GetOutputScalarRange (test_output 50) = Some (50, 50)
   \<and> runWithVariables t (Some inputVolume) (Some outputVolume) LUMINANCE 0 (test_output 50)
     = (None, test_output 49)
   \<and> GetOutputScalarRange (test_output 49) = Some (49, 49)
   \<and> runWithVariables t (Some inputVolume) (Some outputVolume) AVERAGE 0 (test_output 49)
     = (None, test_output 60)
   \<and> GetOutputScalarRange (test_output 60) = Some (60, 60)"
  using run_on_test_scene[of SINGLE_COMPONENT 0 t]
        run_on_test_output[of SINGLE_COMPONENT 1 t 30]
        run_on_test_output[of LUMINANCE 0 t 50]
        run_on_test_output[of AVERAGE 0 t 49]
  by (simp add: range_constant)

theorem test_VectorToScalarVolume1_witness:
  "fst (runWithVariables None (Some inputVolume) (Some outputVolume) LUMINANCE 0 (test_output 50))
     = None
   \<and> voxels (constant_image 49) = replicate 504 [49]"
  using test_VectorToScalarVolume1[of None] by (simp add: constant_image_def)

subsection \<open>The shape of the pipelines\<close>

lemma filter_objects_average:
  "filter_objects (averagePipeline i n t s)
     = 2 * n + 2 + (if t = VTK_FLOAT \<or> t = VTK_DOUBLE then 0 else 1)"
  by (simp add: averagePipeline_def Let_def comp_def sum_list_triv GetImageDataConnection_def)

text \<open>
  Claim C5, as amended. Each conversion is a single pass: on two distinct nodes of the
  scene it copies the matrix and stores in the output node the output of one run of its
  pipeline, whatever that output is; a filter that fails is neither run again nor
  replaced. The pipeline of the single component method is one filter object and the
  pipeline of the luminance method a chain of two, whatever the input. The pipeline of
  the average method is neither free of iteration nor of branches: with \<open>n\<close>
  components it has two filter objects per component, the weighted sum and the final
  cast, and one more filter object, which adds 0.5, when the scalar type is not a
  floating type.
\<close>

theorem pipeline_sizes:
  assumes "s i = Some inN" and "s out = Some outN" and "i \<noteq> out"
  shows "filter_objects (singleComponentPipeline i c s) = 1
   \<and> runConversionMethodSingleComponent i out c s =
       (None, s(out \<mapsto> \<lparr>imageData = Update (singleComponentPipeline i c s),
                         ijkToRAS = ijkToRAS inN\<rparr>))
   \<and> filter_objects (luminancePipeline i s) = 2
   \<and> runConversionMethodLuminance i out s =
       (None, s(out \<mapsto> \<lparr>imageData = Update (luminancePipeline i s),
                         ijkToRAS = ijkToRAS inN\<rparr>))
   \<and> filter_objects (averagePipeline i n t s)
       = 2 * n + 2 + (if t = VTK_FLOAT \<or> t = VTK_DOUBLE then 0 else 1)
   \<and> (\<forall>img. imageData inN = Some img \<longrightarrow> 0 < numberOfComponents img \<longrightarrow>
         runConversionMethodAverage i out s =
           (None, s(out \<mapsto>
              \<lparr>imageData = Update (averagePipeline i (numberOfComponents img) (scalarType img) s),
               ijkToRAS = ijkToRAS inN\<rparr>)))"
proof -
  have sizes: "filter_objects (singleComponentPipeline i c s) = 1"
    "filter_objects (luminancePipeline i s) = 2"
    by (simp_all add: singleComponentPipeline_def luminancePipeline_def
          GetImageDataConnection_def)
  have avg: "runConversionMethodAverage i out s =
           (None, s(out \<mapsto>
              \<lparr>imageData = Update (averagePipeline i (numberOfComponents img) (scalarType img) s),
               ijkToRAS = ijkToRAS inN\<rparr>))"
    if "imageData inN = Some img" and "0 < numberOfComponents img" for img
    using avg_eq[OF assms that(1)] that(2) by simp
  show ?thesis
    using sizes filter_objects_average[of i n t s] single_eq[OF assms, of c] lum_eq[OF assms] avg
    by (simp del: Update.simps)
qed

theorem pipeline_sizes_witness:
  "filter_objects (singleComponentPipeline inputVolume 1 test_scene) = 1
   \<and> filter_objects (luminancePipeline inputVolume test_scene) = 2
   \<and> filter_objects (averagePipeline inputVolume 3 VTK_UNSIGNED_CHAR test_scene) = 9
   \<and> runConversionMethodLuminance inputVolume outputVolume test_scene =
       (None, test_scene(outputVolume \<mapsto>
          \<lparr>imageData = Update (luminancePipeline inputVolume test_scene),
           ijkToRAS = identity4x4\<rparr>))"
  using pipeline_sizes[OF test_scene_nodes io_neq, of 1 3 VTK_UNSIGNED_CHAR]
  by (simp del: Update.simps)

text \<open>
  The claim as stated fails on the input of the test: the average pipeline for three
  components of an integer type has more than five filter objects, each of which
  receives at least one call; it has another number of filter objects for a floating
  type (the branch) and for four components (the loop).
\<close>

theorem average_pipeline_counterexample:
  "\<not> (filter_objects (averagePipeline inputVolume 3 VTK_UNSIGNED_CHAR test_scene) \<le> 5)
   \<and> filter_objects (averagePipeline inputVolume 3 VTK_UNSIGNED_CHAR test_scene)
       \<noteq> filter_objects (averagePipeline inputVolume 3 VTK_FLOAT test_scene)
   \<and> filter_objects (averagePipeline inputVolume 3 VTK_UNSIGNED_CHAR test_scene)
       \<noteq> filter_objects (averagePipeline inputVolume 4 VTK_UNSIGNED_CHAR test_scene)"
  by (simp add: filter_objects_average)

section \<open>Properties of the download utilities\<close>













end
